theory Spec2Isabelle
  imports Main "HOL-Library.Word"
begin

unbundle bit_operations_syntax

section \<open>The driver for the EA DOGM162 display: drivers/LCD_DOGM162.c\<close>

subsection \<open>Registers, pins and observable events\<close>

type_synonym u8 = "8 word"
type_synonym u32 = "32 word"

text \<open>The four single pins the driver drives: power enable (port D, pin 8) and the
  control lines E, RW and RS (port F, pins 3, 4, 5).\<close>

datatype line = PIN_POWER | PIN_E | PIN_RW | PIN_RS

text \<open>
  Everything the driver does to the outside is an event: an access to a GPIO register,
  a call of an external routine, or a store to the volatile flag \<open>l_flgLCD_IsOn\<close>.
  The events are logged in program order.
\<close>

datatype event =
    PinModeSet line bool  \<comment> \<open>\<open>GPIO_PinModeSet (port, pin, gpioModePushPull, out)\<close>\<close>
  | SetPin line bool      \<comment> \<open>\<open>IO_Bit(GPIO->P[port].DOUT, pin) = level\<close>\<close>
  | DataMode u32          \<comment> \<open>\<open>GPIO->P[LCD_DATA_PORT].MODEH = v\<close>\<close>
  | DataOut u32           \<comment> \<open>\<open>GPIO->P[LCD_DATA_PORT].DOUT = v\<close>\<close>
  | DataClr u32           \<comment> \<open>\<open>GPIO->P[LCD_DATA_PORT].DOUTCLR = v\<close>\<close>
  | DataIn u32            \<comment> \<open>a read of \<open>GPIO->P[LCD_DATA_PORT].DIN\<close>, with the value read\<close>
  | Tick                  \<comment> \<open>\<open>DelayTick()\<close>\<close>
  | Delay_ms nat          \<comment> \<open>\<open>msDelay (n)\<close>\<close>
  | FlagWrite bool        \<comment> \<open>\<open>l_flgLCD_IsOn = b\<close>\<close>
  | Call_vsprintf         \<comment> \<open>\<open>vsprintf (buffer, frmt, args)\<close>\<close>

text \<open>The state of the module: the levels of its pins, the two registers of the data
  port, the two module variables, the number of samples of the input register taken so
  far, and the log of events.\<close>

record lcd =
  pin_POWER :: bool
  pin_E :: bool
  pin_RW :: bool
  pin_RS :: bool
  MODEH :: u32
  DOUT :: u32
  l_Contrast :: int
  l_flgLCD_IsOn :: bool
  reads :: nat
  trace :: "event list"

text \<open>
  What the file takes from headers that are not part of the sources:
  \<^item> \<open>DEBUG_EFM\<close>: whether \<open>EFM_ASSERT\<close> of \<open>em_assert.h\<close> is compiled in. With it, a
    false expression calls \<open>assertEFM\<close>, which does not return; without it the
    expression is discarded.
  \<^item> \<open>LCD_WAIT_READY_TIMEOUT\<close>: \<open>RTC_COUNTS_PER_SEC / 1000\<close>, the number of polls.
  \<^item> \<open>DIN\<close>: the values the input register of the data port shows, sample by sample
    (the controller's side of the bus).
\<close>

record platform =
  DEBUG_EFM :: bool
  LCD_WAIT_READY_TIMEOUT :: int
  DIN :: "nat \<Rightarrow> u32"

text \<open>Modelled from the spec: \<open>LCD_DOGM162.h\<close> is not part of the sources; the display
  has 16 columns and 2 rows, and \<open>EOS\<close> is the string terminator.\<close>

definition LCD_DIMENSION_X :: nat where
  "LCD_DIMENSION_X = 16"

definition LCD_DIMENSION_Y :: nat where
  "LCD_DIMENSION_Y = 2"

definition EOS :: u8 where
  "EOS = 0"

fun set_line :: "line \<Rightarrow> bool \<Rightarrow> lcd \<Rightarrow> lcd" where
  "set_line PIN_POWER b s = s\<lparr>pin_POWER := b\<rparr>"
| "set_line PIN_E b s = s\<lparr>pin_E := b\<rparr>"
| "set_line PIN_RW b s = s\<lparr>pin_RW := b\<rparr>"
| "set_line PIN_RS b s = s\<lparr>pin_RS := b\<rparr>"

fun effect :: "event \<Rightarrow> lcd \<Rightarrow> lcd" where
  "effect (PinModeSet l b) s = set_line l b s"
| "effect (SetPin l b) s = set_line l b s"
| "effect (DataMode v) s = s\<lparr>MODEH := v\<rparr>"
| "effect (DataOut v) s = s\<lparr>DOUT := v\<rparr>"
| "effect (DataClr v) s = s\<lparr>DOUT := DOUT s AND NOT v\<rparr>"
| "effect (DataIn v) s = s\<lparr>reads := Suc (reads s)\<rparr>"
| "effect Tick s = s"
| "effect (Delay_ms n) s = s"
| "effect (FlagWrite b) s = s\<lparr>l_flgLCD_IsOn := b\<rparr>"
| "effect Call_vsprintf s = s"

definition emit :: "event \<Rightarrow> lcd \<Rightarrow> lcd" where
  "emit ev s = (effect ev s)\<lparr>trace := trace s @ [ev]\<rparr>"

subsection \<open>Hardware configuration and I/O macros\<close>

definition LCD_DATA_MODE_OUT :: u32 where
  "LCD_DATA_MODE_OUT = 0x44444444"

definition LCD_DATA_MODE_IN :: u32 where
  "LCD_DATA_MODE_IN = 0x11111111"

definition LCD_DATA_MASK :: u32 where
  "LCD_DATA_MASK = push_bit 8 0xFF"

definition SET_LCD_POWER_PIN :: "bool \<Rightarrow> lcd \<Rightarrow> lcd" where
  "SET_LCD_POWER_PIN level = emit (SetPin PIN_POWER level)"

definition SET_LCD_DATA_MODE_IN :: "lcd \<Rightarrow> lcd" where
  "SET_LCD_DATA_MODE_IN = emit (DataMode LCD_DATA_MODE_IN)"

definition SET_LCD_DATA_MODE_OUT :: "lcd \<Rightarrow> lcd" where
  "SET_LCD_DATA_MODE_OUT = emit (DataMode LCD_DATA_MODE_OUT)"

text \<open>\<open>READ_LCD_DATA()\<close> is \<open>DIN >> 8\<close>; the sample is the next value of the input
  register.\<close>

definition READ_LCD_DATA :: "platform \<Rightarrow> lcd \<Rightarrow> u32 \<times> lcd" where
  "READ_LCD_DATA P s = (drop_bit 8 (DIN P (reads s)), emit (DataIn (DIN P (reads s))) s)"

text \<open>\<open>WRITE_LCD_DATA(data)\<close> is \<open>DOUT = (data) << 8\<close>, the byte promoted first.\<close>

definition WRITE_LCD_DATA :: "u8 \<Rightarrow> lcd \<Rightarrow> lcd" where
  "WRITE_LCD_DATA data = emit (DataOut (push_bit 8 (ucast data)))"

definition SET_LCD_CTRL_PIN_E :: "bool \<Rightarrow> lcd \<Rightarrow> lcd" where
  "SET_LCD_CTRL_PIN_E level = emit (SetPin PIN_E level)"

definition SET_LCD_CTRL_PIN_RW :: "bool \<Rightarrow> lcd \<Rightarrow> lcd" where
  "SET_LCD_CTRL_PIN_RW level = emit (SetPin PIN_RW level)"

definition SET_LCD_CTRL_PIN_RS :: "bool \<Rightarrow> lcd \<Rightarrow> lcd" where
  "SET_LCD_CTRL_PIN_RS level = emit (SetPin PIN_RS level)"

definition DelayTick :: "lcd \<Rightarrow> lcd" where
  "DelayTick = emit Tick"

definition msDelay :: "nat \<Rightarrow> lcd \<Rightarrow> lcd" where
  "msDelay n = emit (Delay_ms n)"

definition GPIO_PinModeSet :: "line \<Rightarrow> bool \<Rightarrow> lcd \<Rightarrow> lcd" where
  "GPIO_PinModeSet l out = emit (PinModeSet l out)"

lemmas io_defs =
  SET_LCD_POWER_PIN_def SET_LCD_DATA_MODE_IN_def SET_LCD_DATA_MODE_OUT_def
  READ_LCD_DATA_def WRITE_LCD_DATA_def SET_LCD_CTRL_PIN_E_def SET_LCD_CTRL_PIN_RW_def
  SET_LCD_CTRL_PIN_RS_def DelayTick_def msDelay_def GPIO_PinModeSet_def

subsection \<open>Commands of the controller\<close>

definition LCD_CMD_CLEAR_DISPLAY :: int where "LCD_CMD_CLEAR_DISPLAY = 0x01"
definition LCD_CMD_ENTRY_MODE_ID :: int where "LCD_CMD_ENTRY_MODE_ID = 0x06"
definition LCD_CMD_DISPLAY_ON_D :: int where "LCD_CMD_DISPLAY_ON_D = 0x0C"
definition LCD_CMD_FCT_SET_DL :: int where "LCD_CMD_FCT_SET_DL = 0x30"
definition LCD_CMD_FCT_SET_N :: int where "LCD_CMD_FCT_SET_N = 0x28"
definition LCD_CMD_FCT_SET_IS1 :: int where "LCD_CMD_FCT_SET_IS1 = 0x21"
definition LCD_CMD_FCT_SET_IS0 :: int where "LCD_CMD_FCT_SET_IS0 = 0x20"
definition LCD_CMD_SET_DDRAM_ADDR :: int where "LCD_CMD_SET_DDRAM_ADDR = 0x80"
definition LCD_CMD_IS0_SET_CGRAM :: int where "LCD_CMD_IS0_SET_CGRAM = 0x40"
definition LCD_CMD_IS1_BIAS_SET :: int where "LCD_CMD_IS1_BIAS_SET = 0x14"
definition LCD_CMD_IS1_IBC_BON :: int where "LCD_CMD_IS1_IBC_BON = 0x54"
definition LCD_CMD_IS1_CONTR :: int where "LCD_CMD_IS1_CONTR = 0x70"
definition LCD_CMD_IS1_FOLLOW_FON :: int where "LCD_CMD_IS1_FOLLOW_FON = 0x68"
definition LCD_CMD_IS1_FOLLOW_RAB2 :: int where "LCD_CMD_IS1_FOLLOW_RAB2 = 0x64"
definition LCD_CMD_IS1_FOLLOW_RAB0 :: int where "LCD_CMD_IS1_FOLLOW_RAB0 = 0x61"

lemmas cmd_defs =
  LCD_CMD_CLEAR_DISPLAY_def LCD_CMD_ENTRY_MODE_ID_def LCD_CMD_DISPLAY_ON_D_def
  LCD_CMD_FCT_SET_DL_def LCD_CMD_FCT_SET_N_def LCD_CMD_FCT_SET_IS1_def
  LCD_CMD_FCT_SET_IS0_def LCD_CMD_SET_DDRAM_ADDR_def LCD_CMD_IS0_SET_CGRAM_def
  LCD_CMD_IS1_BIAS_SET_def LCD_CMD_IS1_IBC_BON_def LCD_CMD_IS1_CONTR_def
  LCD_CMD_IS1_FOLLOW_FON_def LCD_CMD_IS1_FOLLOW_RAB2_def LCD_CMD_IS1_FOLLOW_RAB0_def

text \<open>The custom characters: 8 glyphs of 8 rows each.\<close>

definition l_CustChar :: "u8 list list" where
  "l_CustChar =
    [[0x00, 0x00, 0x00, 0x00, 0x00, 0x00, 0x00, 0x00],
     [0x00, 0x00, 0x00, 0x00, 0x00, 0x00, 0x00, 0x00],
     [0x00, 0x00, 0x00, 0x00, 0x00, 0x00, 0x00, 0x00],
     [0x00, 0x00, 0x00, 0x00, 0x00, 0x00, 0x00, 0x00],
     [0x00, 0x00, 0x00, 0x00, 0x00, 0x00, 0x00, 0x00],
     [0x04, 0x0E, 0x15, 0x04, 0x04, 0x04, 0x04, 0x00],
     [0x04, 0x04, 0x04, 0x04, 0x15, 0x0E, 0x04, 0x00],
     [0x00, 0x04, 0x02, 0x1F, 0x02, 0x04, 0x00, 0x00]]"

subsection \<open>The busy flag and the two transfers\<close>

definition BusyRead :: "platform \<Rightarrow> lcd \<Rightarrow> u8 \<times> lcd" where
  "BusyRead P s =
     (let s1 = SET_LCD_DATA_MODE_IN s;
          s2 = SET_LCD_CTRL_PIN_RW True s1;
          s3 = SET_LCD_CTRL_PIN_RS False s2;
          s4 = SET_LCD_CTRL_PIN_E True s3;
          s5 = DelayTick s4;
          (d, s6) = READ_LCD_DATA P s5;
          status = (ucast d :: u8);
          s7 = SET_LCD_CTRL_PIN_E False s6
      in (status, s7))"

text \<open>The loop of \<open>WaitCtrlReady\<close>, from the counter \<open>i\<close> on. The result is
  \<open>False\<close> when the controller is ready and \<open>True\<close> for a timeout.\<close>

function WaitCtrlReady_from :: "platform \<Rightarrow> int \<Rightarrow> lcd \<Rightarrow> bool \<times> lcd" where
  "WaitCtrlReady_from P i s =
     (if i < LCD_WAIT_READY_TIMEOUT P then
        (case BusyRead P s of (status, s1) \<Rightarrow>
           if status AND push_bit 7 1 = 0 then (False, s1)
           else WaitCtrlReady_from P (i + 1) (DelayTick s1))
      else (True, s))"
  by pat_completeness auto
termination
  by (relation "measure (\<lambda>(P, i, s). nat (LCD_WAIT_READY_TIMEOUT P - i))") auto

declare WaitCtrlReady_from.simps [simp del]

definition WaitCtrlReady :: "platform \<Rightarrow> lcd \<Rightarrow> bool \<times> lcd" where
  "WaitCtrlReady P s = WaitCtrlReady_from P 0 s"

definition CmdWrite :: "platform \<Rightarrow> u8 \<Rightarrow> lcd \<Rightarrow> lcd" where
  "CmdWrite P cmd s =
     (case WaitCtrlReady P s of
        (True, s0) \<Rightarrow> s0
      | (False, s0) \<Rightarrow>
          (let s1 = SET_LCD_DATA_MODE_OUT s0;
               s2 = SET_LCD_CTRL_PIN_RW False s1;
               s3 = SET_LCD_CTRL_PIN_RS False s2;
               s4 = WRITE_LCD_DATA cmd s3;
               s5 = SET_LCD_CTRL_PIN_E True s4;
               s6 = DelayTick s5
           in SET_LCD_CTRL_PIN_E False s6))"

definition DataWrite :: "platform \<Rightarrow> u8 \<Rightarrow> lcd \<Rightarrow> lcd" where
  "DataWrite P data s =
     (case WaitCtrlReady P s of
        (True, s0) \<Rightarrow> s0
      | (False, s0) \<Rightarrow>
          (let s1 = SET_LCD_DATA_MODE_OUT s0;
               s2 = SET_LCD_CTRL_PIN_RW False s1;
               s3 = SET_LCD_CTRL_PIN_RS True s2;
               s4 = WRITE_LCD_DATA data s3;
               s5 = SET_LCD_CTRL_PIN_E True s4;
               s6 = DelayTick s5
           in SET_LCD_CTRL_PIN_E False s6))"

subsection \<open>Power on and off\<close>

text \<open>The inner loop of the glyph upload writes the 8 rows of glyph \<open>ch\<close>, the outer
  one selects the address of each glyph in the CGRAM first.\<close>

definition load_glyph :: "platform \<Rightarrow> nat \<Rightarrow> lcd \<Rightarrow> lcd" where
  "load_glyph P ch s =
     fold (\<lambda>i. DataWrite P (l_CustChar ! ch ! i)) [0..<8]
       (CmdWrite P (word_of_int (LCD_CMD_IS0_SET_CGRAM OR push_bit 3 (int ch))) s)"

definition LCD_PowerOn :: "platform \<Rightarrow> lcd \<Rightarrow> lcd" where
  "LCD_PowerOn P s =
     (let s1 = GPIO_PinModeSet PIN_E False s;
          s2 = GPIO_PinModeSet PIN_RW False s1;
          s3 = GPIO_PinModeSet PIN_RS False s2;
          s4 = emit (DataClr LCD_DATA_MASK) s3;
          s5 = GPIO_PinModeSet PIN_POWER True s4;
          s6 = msDelay 100 s5;
          s7 = CmdWrite P (word_of_int
                 (LCD_CMD_FCT_SET_DL OR LCD_CMD_FCT_SET_N OR LCD_CMD_FCT_SET_IS1)) s6;
          s8 = CmdWrite P (word_of_int LCD_CMD_IS1_BIAS_SET) s7;
          s9 = CmdWrite P (word_of_int
                 (LCD_CMD_IS1_IBC_BON OR drop_bit 4 (l_Contrast s8))) s8;
          s10 = CmdWrite P (word_of_int
                 (LCD_CMD_IS1_FOLLOW_FON OR LCD_CMD_IS1_FOLLOW_RAB2
                    OR LCD_CMD_IS1_FOLLOW_RAB0)) s9;
          s11 = CmdWrite P (word_of_int
                 (LCD_CMD_IS1_CONTR OR (l_Contrast s10 AND 0x0F))) s10;
          s12 = CmdWrite P (word_of_int
                 (LCD_CMD_FCT_SET_DL OR LCD_CMD_FCT_SET_N OR LCD_CMD_FCT_SET_IS0)) s11;
          s13 = fold (load_glyph P) [0..<8] s12;
          s14 = CmdWrite P (word_of_int LCD_CMD_DISPLAY_ON_D) s13;
          s15 = CmdWrite P (word_of_int LCD_CMD_CLEAR_DISPLAY) s14;
          s16 = CmdWrite P (word_of_int LCD_CMD_ENTRY_MODE_ID) s15
      in emit (FlagWrite True) s16)"

definition LCD_Init :: "platform \<Rightarrow> lcd \<Rightarrow> lcd" where
  "LCD_Init P s = LCD_PowerOn P s"

definition LCD_PowerOff :: "lcd \<Rightarrow> lcd" where
  "LCD_PowerOff s =
     (let s1 = emit (FlagWrite False) s;
          s2 = SET_LCD_POWER_PIN False s1;
          s3 = SET_LCD_DATA_MODE_OUT s2;
          s4 = SET_LCD_CTRL_PIN_RW False s3;
          s5 = SET_LCD_CTRL_PIN_RS False s4;
          s6 = WRITE_LCD_DATA 0x00 s5
      in SET_LCD_CTRL_PIN_E False s6)"

subsection \<open>Assertions, strings and arrays\<close>

text \<open>
  A call returns, or stops in \<open>assertEFM\<close> (which loops for ever; \<open>Halt\<close> holds the
  state of the module at that point), or leaves the array it was given (undefined
  behaviour in C).
\<close>

datatype 'a outcome = Return 'a | Halt lcd | Undefined

fun and_then :: "'a outcome \<Rightarrow> ('a \<Rightarrow> 'b outcome) \<Rightarrow> 'b outcome" where
  "and_then (Return x) f = f x"
| "and_then (Halt h) f = Halt h"
| "and_then Undefined f = Undefined"

definition EFM_ASSERT :: "platform \<Rightarrow> bool \<Rightarrow> lcd \<Rightarrow> lcd outcome" where
  "EFM_ASSERT P expr s = (if DEBUG_EFM P \<and> \<not> expr then Halt s else Return s)"

text \<open>A \<open>char *\<close> argument is the array it points into, from the pointer on. \<open>strlen\<close>
  looks for the terminator; without one it reads past the array.\<close>

fun strlen :: "u8 list \<Rightarrow> nat option" where
  "strlen [] = None"
| "strlen (c # cs) = (if c = EOS then Some 0 else map_option Suc (strlen cs))"

text \<open>\<open>buffer[i] = v\<close>.\<close>

definition store :: "u8 list \<Rightarrow> nat \<Rightarrow> u8 \<Rightarrow> u8 list option" where
  "store buffer i v = (if i < length buffer then Some (buffer[i := v]) else None)"

subsection \<open>The output routines\<close>

definition LCD_GotoXY :: "platform \<Rightarrow> u8 \<Rightarrow> u8 \<Rightarrow> lcd \<Rightarrow> lcd outcome" where
  "LCD_GotoXY P x y s =
     (if \<not> l_flgLCD_IsOn s then Return s
      else and_then
        (EFM_ASSERT P (unat x < LCD_DIMENSION_X \<and> unat y < LCD_DIMENSION_Y) s)
        (\<lambda>s1. let addr = (word_of_int (uint y * 0x40 + uint x) :: u8)
              in Return (CmdWrite P (word_of_int (LCD_CMD_SET_DDRAM_ADDR OR uint addr)) s1)))"

definition LCD_Putc :: "platform \<Rightarrow> u8 \<Rightarrow> lcd \<Rightarrow> lcd" where
  "LCD_Putc P c s = (if l_flgLCD_IsOn s then DataWrite P c s else s)"

fun LCD_Puts :: "platform \<Rightarrow> u8 list \<Rightarrow> lcd \<Rightarrow> lcd outcome" where
  "LCD_Puts P [] s = Undefined"
| "LCD_Puts P (c # pStr) s =
     (if c \<noteq> EOS then LCD_Puts P pStr (LCD_Putc P c s) else Return s)"

text \<open>The loop \<open>while (len < LCD_DIMENSION_X) buffer[len++] = ' '\<close>.\<close>

function add_spaces :: "u8 list \<Rightarrow> nat \<Rightarrow> u8 list option" where
  "add_spaces buffer len =
     (if len < LCD_DIMENSION_X then
        (case store buffer len 0x20 of
           None \<Rightarrow> None
         | Some buffer1 \<Rightarrow> add_spaces buffer1 (len + 1))
      else Some buffer)"
  by pat_completeness auto
termination
  by (relation "measure (\<lambda>(buffer, len). LCD_DIMENSION_X - len)") auto

declare add_spaces.simps [simp del]

definition LCD_WriteLine ::
  "platform \<Rightarrow> int \<Rightarrow> u8 list \<Rightarrow> lcd \<Rightarrow> (u8 list \<times> lcd) outcome" where
  "LCD_WriteLine P lineNum buffer s =
     (if lineNum < 1 \<or> lineNum > 2 then
        and_then (EFM_ASSERT P False s) (\<lambda>s1. Return (buffer, s1))
      else
        (case strlen buffer of
           None \<Rightarrow> Undefined
         | Some len \<Rightarrow>
            (case (if len > LCD_DIMENSION_X then store buffer LCD_DIMENSION_X EOS
                   else Some buffer) of
               None \<Rightarrow> Undefined
             | Some buffer1 \<Rightarrow>
                (case add_spaces buffer1 len of
                   None \<Rightarrow> Undefined
                 | Some buffer2 \<Rightarrow>
                    (case store buffer2 LCD_DIMENSION_X EOS of
                       None \<Rightarrow> Undefined
                     | Some buffer3 \<Rightarrow>
                        and_then (LCD_GotoXY P 0 (word_of_int (lineNum - 1)) s)
                          (\<lambda>s1. and_then (LCD_Puts P buffer3 s1)
                             (\<lambda>s2. Return (buffer3, s2))))))))"

text \<open>
  \<open>vsprintf\<close> is the C library's. Its text is given by \<open>expand\<close> (what the format and
  the arguments print as); it is stored at the start of the array with a terminator, and
  a text that does not fit is written past the array.
\<close>

definition vsprintf ::
  "(u8 list \<Rightarrow> 'a \<Rightarrow> u8 list) \<Rightarrow> u8 list \<Rightarrow> u8 list \<Rightarrow> 'a \<Rightarrow> u8 list option" where
  "vsprintf expand buffer frmt args =
     (let text = expand frmt args
      in if length text < length buffer
         then Some (text @ [EOS] @ drop (Suc (length text)) buffer)
         else None)"

text \<open>
  \<open>frmt\<close> is the format string up to its terminator, so \<open>strlen(frmt)\<close> is its length.
  The local \<open>char buffer[40]\<close> is not initialised: \<open>junk\<close> gives the bytes found there.
\<close>

definition LCD_vPrintf ::
  "platform \<Rightarrow> (u8 list \<Rightarrow> 'a \<Rightarrow> u8 list) \<Rightarrow> (nat \<Rightarrow> u8) \<Rightarrow> int \<Rightarrow> u8 list \<Rightarrow> 'a
     \<Rightarrow> lcd \<Rightarrow> lcd outcome" where
  "LCD_vPrintf P expand junk lineNum frmt args s =
     (let buffer = map junk [0..<40]
      in if \<not> l_flgLCD_IsOn s then Return s
         else if length frmt > length buffer - 10 then EFM_ASSERT P False s
         else
           (case vsprintf expand buffer frmt args of
              None \<Rightarrow> Undefined
            | Some buffer1 \<Rightarrow>
                and_then (LCD_WriteLine P lineNum buffer1 (emit Call_vsprintf s))
                  (\<lambda>(buffer2, s1). Return s1)))"

definition LCD_Printf ::
  "platform \<Rightarrow> (u8 list \<Rightarrow> 'a \<Rightarrow> u8 list) \<Rightarrow> (nat \<Rightarrow> u8) \<Rightarrow> int \<Rightarrow> u8 list \<Rightarrow> 'a
     \<Rightarrow> lcd \<Rightarrow> lcd outcome" where
  "LCD_Printf P expand junk lineNum frmt args s =
     LCD_vPrintf P expand junk lineNum frmt args s"

subsection \<open>What the controller sees\<close>

text \<open>
  The controller takes a transfer on the falling edge of E, from the levels of the lines
  at that moment.
  \<^item> The pulse must have been held: a \<open>DelayTick\<close> lies between the statement that
    raised E and the one that lowers it. A shorter pulse is a \<open>Glitch\<close>.
  \<^item> With RW low it is a write, to the command register (RS low) or to the data memory
    (RS high). The byte it latches is what the data port drives, bits 15:8 of \<open>DOUT\<close>,
    and the port drives the bus only in output mode (\<open>MODEH = LCD_DATA_MODE_OUT\<close>). In
    any other mode the controller latches a bus that nobody drives: \<open>Undriven\<close>.
  \<^item> With RW high it is a read, of the status (RS low) or of the data memory (RS high).
    The driver can sample the answer only with the port in input mode
    (\<open>MODEH = LCD_DATA_MODE_IN\<close>); in any other mode the read is \<open>Unsampled\<close>.
\<close>

datatype xfer =
  StatusRead | DataRead | Command u8 | Data u8 | Undriven | Unsampled | Glitch

definition raises_E :: "event \<Rightarrow> bool" where
  "raises_E ev = (ev = SetPin PIN_E True \<or> ev = PinModeSet PIN_E True)"

definition held :: "lcd \<Rightarrow> bool" where
  "held s = (Tick \<in> set (takeWhile (\<lambda>ev. \<not> raises_E ev) (rev (trace s))))"

definition latched :: "lcd \<Rightarrow> xfer" where
  "latched s =
     (if \<not> held s then Glitch
      else if pin_RW s then
        (if MODEH s = LCD_DATA_MODE_IN then (if pin_RS s then DataRead else StatusRead)
         else Unsampled)
      else if MODEH s = LCD_DATA_MODE_OUT then
        (if pin_RS s then Data (ucast (drop_bit 8 (DOUT s)))
         else Command (ucast (drop_bit 8 (DOUT s))))
      else Undriven)"

fun observe :: "lcd \<Rightarrow> event list \<Rightarrow> xfer list" where
  "observe s [] = []"
| "observe s (ev # evs) =
     (if pin_E s \<and> \<not> pin_E (emit ev s) then [latched s] else []) @ observe (emit ev s) evs"

text \<open>The events between a state and a later one, the transfers among them, and the
  write cycles among those. An undriven write and a glitch count as write cycles: what
  the controller makes of them is not known.\<close>

definition emitted :: "lcd \<Rightarrow> lcd \<Rightarrow> event list" where
  "emitted s s' = drop (length (trace s)) (trace s')"

definition bus_transfers :: "lcd \<Rightarrow> lcd \<Rightarrow> xfer list" where
  "bus_transfers s s' = observe s (emitted s s')"

fun is_write :: "xfer \<Rightarrow> bool" where
  "is_write (Command c) = True"
| "is_write (Data d) = True"
| "is_write Undriven = True"
| "is_write Glitch = True"
| "is_write StatusRead = False"
| "is_write DataRead = False"
| "is_write Unsampled = False"

definition bus_writes :: "lcd \<Rightarrow> lcd \<Rightarrow> xfer list" where
  "bus_writes s s' = filter is_write (bus_transfers s s')"

text \<open>The busy flag in the \<open>n\<close>-th sample of the input register, and a controller that
  never stays busy for a whole wait.\<close>

definition busy :: "platform \<Rightarrow> nat \<Rightarrow> bool" where
  "busy P n = ((ucast (drop_bit 8 (DIN P n)) :: u8) AND push_bit 7 1 \<noteq> 0)"

definition no_stall :: "platform \<Rightarrow> bool" where
  "no_stall P = (\<forall>n. \<exists>k. int k < LCD_WAIT_READY_TIMEOUT P \<and> \<not> busy P (n + k))"

subsection \<open>Notions of the claims\<close>

text \<open>The line as the specification words it: a text shorter than the width with
  spaces added on the right, a longer one cut to its first \<open>LCD_DIMENSION_X\<close>
  characters.\<close>

definition line_of :: "u8 list \<Rightarrow> u8 list" where
  "line_of text =
     (if length text < LCD_DIMENSION_X
      then text @ replicate (LCD_DIMENSION_X - length text) 0x20
      else take LCD_DIMENSION_X text)"

text \<open>The enable line at the end of a call: low in the state it returns or stops in.
  Nothing is said of a call that left its array.\<close>

fun E_low :: "lcd outcome \<Rightarrow> bool" where
  "E_low (Return s) = (\<not> pin_E s)"
| "E_low (Halt s) = (\<not> pin_E s)"
| "E_low Undefined = True"

subsection \<open>Notions for the proofs\<close>

text \<open>The state after a list of events, and a state that comes from another by the
  events logged since.\<close>

fun run :: "event list \<Rightarrow> lcd \<Rightarrow> lcd" where
  "run [] s = s"
| "run (ev # evs) s = run evs (emit ev s)"

definition extends :: "lcd \<Rightarrow> lcd \<Rightarrow> bool" where
  "extends s s' = (s' = run (emitted s s') s)"

text \<open>One round of the loop: a status read and the delay.\<close>

definition poll :: "platform \<Rightarrow> lcd \<Rightarrow> lcd" where
  "poll P s = DelayTick (snd (BusyRead P s))"

text \<open>The events of a write, after the wait.\<close>

definition write_frame :: "bool \<Rightarrow> u8 \<Rightarrow> event list" where
  "write_frame rs b =
     [DataMode LCD_DATA_MODE_OUT, SetPin PIN_RW False, SetPin PIN_RS rs,
      DataOut (push_bit 8 (ucast b)), SetPin PIN_E True, Tick, SetPin PIN_E False]"

text \<open>A piece of the program that only adds events, puts the writes \<open>w\<close> on the bus,
  keeps the flag and the contrast, and does not leave E high unless it found it so.\<close>

definition does :: "lcd \<Rightarrow> lcd \<Rightarrow> xfer list \<Rightarrow> bool" where
  "does s s' w =
     (extends s s' \<and> bus_writes s s' = w \<and> l_flgLCD_IsOn s' = l_flgLCD_IsOn s
      \<and> l_Contrast s' = l_Contrast s \<and> (pin_E s' \<longrightarrow> pin_E s))"

text \<open>The first six statements of \<open>LCD_PowerOn\<close>, up to the delay.\<close>

definition power_up :: "lcd \<Rightarrow> lcd" where
  "power_up s =
     run [PinModeSet PIN_E False, PinModeSet PIN_RW False, PinModeSet PIN_RS False,
          DataClr LCD_DATA_MASK, PinModeSet PIN_POWER True, Delay_ms 100] s"

text \<open>A later state that has E high only if the earlier one had, and a call that ends
  in such a state.\<close>

definition reach :: "lcd \<Rightarrow> lcd \<Rightarrow> bool" where
  "reach s s' = (extends s s' \<and> (pin_E s' \<longrightarrow> pin_E s))"

fun ends :: "lcd \<Rightarrow> lcd outcome \<Rightarrow> bool" where
  "ends s (Return s') = reach s s'"
| "ends s (Halt h) = reach s h"
| "ends s Undefined = True"

subsection \<open>Example states and inputs\<close>

text \<open>A state right after power-on.\<close>

definition lcd_on :: lcd where
  "lcd_on = \<lparr>pin_POWER = True, pin_E = False, pin_RW = False, pin_RS = False,
     MODEH = LCD_DATA_MODE_OUT, DOUT = 0, l_Contrast = 25, l_flgLCD_IsOn = True,
     reads = 0, trace = []\<rparr>"


text \<open>Three platforms with 32 polls per wait: a release build whose controller shows
  the busy flag in every other sample, a debug build whose controller is never busy, and
  a release build whose controller never gets ready.\<close>

definition release_build :: platform where
  "release_build =
     \<lparr>DEBUG_EFM = False, LCD_WAIT_READY_TIMEOUT = 32,
      DIN = (\<lambda>n. if even n then 0x8000 else 0)\<rparr>"

definition debug_build :: platform where
  "debug_build = \<lparr>DEBUG_EFM = True, LCD_WAIT_READY_TIMEOUT = 32, DIN = (\<lambda>n. 0)\<rparr>"

definition stuck_build :: platform where
  "stuck_build = \<lparr>DEBUG_EFM = False, LCD_WAIT_READY_TIMEOUT = 32, DIN = (\<lambda>n. 0xFFFF)\<rparr>"

text \<open>The bytes of \<open>Hello\<close> in an array of 20, and a text of 32 characters in an array
  of 33.\<close>

definition hello :: "u8 list" where
  "hello = [0x48, 0x65, 0x6C, 0x6C, 0x6F, 0, 0, 0, 0, 0, 0, 0, 0, 0, 0, 0, 0, 0, 0, 0]"

definition too_long :: "u8 list" where
  "too_long = map of_nat [65..<97] @ [0]"

text \<open>A format of 31 characters, a format of two characters (\<open>%s\<close>), and a formatter
  that prints 50 characters for it.\<close>

definition long_format :: "u8 list" where
  "long_format = replicate 31 0x41"

definition wide_text :: "u8 list \<Rightarrow> unit \<Rightarrow> u8 list" where
  "wide_text frmt args = replicate 50 0x41"

section \<open>Lemmas\<close>

lemma run_append: "run (xs @ ys) s = run ys (run xs s)"
  by (induction xs arbitrary: s) auto

lemma trace_run: "trace (run evs s) = trace s @ evs"
  by (induction evs arbitrary: s) (auto simp: emit_def)

lemma emitted_run: "emitted s (run evs s) = evs"
  by (simp add: emitted_def trace_run)

lemma extends_run: "extends s (run evs s)"
  by (simp add: extends_def emitted_run)

lemma extends_refl: "extends s s"
  using extends_run [of s "[]"] by simp

lemma extends_emit: "extends s (emit ev s)"
  using extends_run [of s "[ev]"] by simp

lemma extends_trans: "extends s a \<Longrightarrow> extends a b \<Longrightarrow> extends s b"
  by (metis extends_def extends_run run_append)

lemma emitted_trans:
  "extends s a \<Longrightarrow> extends a b \<Longrightarrow> emitted s b = emitted s a @ emitted a b"
  by (metis extends_def emitted_run run_append)

lemma observe_append: "observe s (xs @ ys) = observe s xs @ observe (run xs s) ys"
  by (induction xs arbitrary: s) auto

lemma bus_transfers_trans:
  "extends s a \<Longrightarrow> extends a b \<Longrightarrow> bus_transfers s b = bus_transfers s a @ bus_transfers a b"
  unfolding bus_transfers_def
  by (metis emitted_trans observe_append extends_def)

lemma bus_writes_trans:
  "extends s a \<Longrightarrow> extends a b \<Longrightarrow> bus_writes s b = bus_writes s a @ bus_writes a b"
  by (simp add: bus_writes_def bus_transfers_trans)

lemma BusyRead_run:
  "snd (BusyRead P s) =
     run [DataMode LCD_DATA_MODE_IN, SetPin PIN_RW True, SetPin PIN_RS False,
          SetPin PIN_E True, Tick, DataIn (DIN P (reads s)), SetPin PIN_E False] s"
  by (simp add: BusyRead_def io_defs emit_def)

lemma BusyRead_fst: "fst (BusyRead P s) = ucast (drop_bit 8 (DIN P (reads s)))"
  by (simp add: BusyRead_def io_defs emit_def)

lemma BusyRead_transfers: "bus_transfers s (snd (BusyRead P s)) = [StatusRead]"
  unfolding BusyRead_run bus_transfers_def emitted_run
  by (simp add: emit_def latched_def held_def raises_E_def)

lemma BusyRead_extends: "extends s (snd (BusyRead P s))"
  unfolding BusyRead_run by (rule extends_run)

lemma BusyRead_fields:
  "reads (snd (BusyRead P s)) = Suc (reads s)"
  "pin_E (snd (BusyRead P s)) = False"
  "l_flgLCD_IsOn (snd (BusyRead P s)) = l_flgLCD_IsOn s"
  "l_Contrast (snd (BusyRead P s)) = l_Contrast s"
  by (simp_all add: BusyRead_def io_defs emit_def)

lemma DelayTick_extends: "extends s (DelayTick s)"
  unfolding DelayTick_def by (rule extends_emit)

lemma DelayTick_fields:
  "reads (DelayTick s) = reads s"
  "pin_E (DelayTick s) = pin_E s"
  "l_flgLCD_IsOn (DelayTick s) = l_flgLCD_IsOn s"
  "l_Contrast (DelayTick s) = l_Contrast s"
  by (simp_all add: io_defs emit_def)

lemma DelayTick_transfers: "bus_transfers s (DelayTick s) = []"
  by (simp add: bus_transfers_def emitted_def io_defs emit_def)

lemma poll_extends: "extends s (poll P s)"
  unfolding poll_def by (rule extends_trans [OF BusyRead_extends DelayTick_extends])

lemma poll_transfers: "bus_transfers s (poll P s) = [StatusRead]"
  unfolding poll_def
  by (simp add: bus_transfers_trans [OF BusyRead_extends DelayTick_extends]
      BusyRead_transfers DelayTick_transfers)

lemma WaitCtrlReady_from_unfold:
  "WaitCtrlReady_from P i s =
     (if i < LCD_WAIT_READY_TIMEOUT P then
        (if busy P (reads s) then WaitCtrlReady_from P (i + 1) (poll P s)
         else (False, snd (BusyRead P s)))
      else (True, s))"
  by (subst WaitCtrlReady_from.simps)
     (simp add: busy_def poll_def BusyRead_fst [symmetric] split: prod.split)

lemma wait_induct [case_names timeout ready again]:
  assumes "\<And>P i s. \<not> i < LCD_WAIT_READY_TIMEOUT P \<Longrightarrow> Q P i s"
    and "\<And>P i s. i < LCD_WAIT_READY_TIMEOUT P \<Longrightarrow> \<not> busy P (reads s) \<Longrightarrow> Q P i s"
    and "\<And>P i s. i < LCD_WAIT_READY_TIMEOUT P \<Longrightarrow> busy P (reads s)
           \<Longrightarrow> Q P (i + 1) (poll P s) \<Longrightarrow> Q P i s"
  shows "Q P i s"
proof (induction P i s rule: WaitCtrlReady_from.induct)
  case (1 P i s)
  show ?case
  proof (cases "i < LCD_WAIT_READY_TIMEOUT P")
    case False
    then show ?thesis by (rule assms(1))
  next
    case True
    show ?thesis
    proof (cases "busy P (reads s)")
      case False
      with True show ?thesis by (rule assms(2))
    next
      case b: True
      have "fst (BusyRead P s) AND push_bit 7 1 \<noteq> 0"
        using b by (simp add: busy_def BusyRead_fst)
      from "1.IH" [OF True prod.collapse this]
      have "Q P (i + 1) (poll P s)"
        by (simp add: poll_def)
      with True b show ?thesis by (rule assms(3))
    qed
  qed
qed

lemma wait_timeout:
  "\<not> i < LCD_WAIT_READY_TIMEOUT P \<Longrightarrow> WaitCtrlReady_from P i s = (True, s)"
  by (subst WaitCtrlReady_from_unfold) simp

lemma wait_ready:
  "i < LCD_WAIT_READY_TIMEOUT P \<Longrightarrow> \<not> busy P (reads s)
     \<Longrightarrow> WaitCtrlReady_from P i s = (False, snd (BusyRead P s))"
  by (subst WaitCtrlReady_from_unfold) simp

lemma wait_again:
  "i < LCD_WAIT_READY_TIMEOUT P \<Longrightarrow> busy P (reads s)
     \<Longrightarrow> WaitCtrlReady_from P i s = WaitCtrlReady_from P (i + 1) (poll P s)"
  by (subst WaitCtrlReady_from_unfold) simp

lemma poll_fields:
  "reads (poll P s) = Suc (reads s)"
  "pin_E (poll P s) = False"
  "l_flgLCD_IsOn (poll P s) = l_flgLCD_IsOn s"
  "l_Contrast (poll P s) = l_Contrast s"
  by (simp_all add: poll_def DelayTick_fields BusyRead_fields)

lemma wait_extends: "extends s (snd (WaitCtrlReady_from P i s))"
proof (induction P i s rule: wait_induct)
  case (timeout P i s)
  then show ?case by (simp add: wait_timeout extends_refl)
next
  case (ready P i s)
  then show ?case by (simp add: wait_ready BusyRead_extends)
next
  case (again P i s)
  then show ?case
    by (simp add: wait_again extends_trans [OF poll_extends])
qed

text \<open>What a wait leaves behind: only status reads on the bus, one per sample taken,
  the flag and the contrast as they were.\<close>

lemma wait_transfers:
  "bus_transfers s (snd (WaitCtrlReady_from P i s)) =
     replicate (reads (snd (WaitCtrlReady_from P i s)) - reads s) StatusRead
   \<and> reads s \<le> reads (snd (WaitCtrlReady_from P i s))"
proof (induction P i s rule: wait_induct)
  case (timeout P i s)
  then show ?case
    by (simp add: wait_timeout bus_transfers_def emitted_def)
next
  case (ready P i s)
  then show ?case
    by (simp add: wait_ready BusyRead_transfers BusyRead_fields)
next
  case (again P i s)
  let ?w = "snd (WaitCtrlReady_from P (i + 1) (poll P s))"
  from again have le: "Suc (reads s) \<le> reads ?w"
    and tr: "bus_transfers (poll P s) ?w = replicate (reads ?w - Suc (reads s)) StatusRead"
    by (simp_all add: poll_fields)
  from le have "reads ?w - reads s = Suc (reads ?w - Suc (reads s))"
    by arith
  with le tr again(1,2) show ?case
    by (simp add: wait_again bus_transfers_trans [OF poll_extends wait_extends]
          poll_transfers)
qed

lemma wait_fields:
  "l_flgLCD_IsOn (snd (WaitCtrlReady_from P i s)) = l_flgLCD_IsOn s
   \<and> l_Contrast (snd (WaitCtrlReady_from P i s)) = l_Contrast s
   \<and> (pin_E (snd (WaitCtrlReady_from P i s)) \<longrightarrow> pin_E s \<and> fst (WaitCtrlReady_from P i s))"
proof (induction P i s rule: wait_induct)
  case (timeout P i s)
  then show ?case by (simp add: wait_timeout)
next
  case (ready P i s)
  then show ?case by (simp add: wait_ready BusyRead_fields)
next
  case (again P i s)
  then show ?case by (simp add: wait_again poll_fields)
qed

lemma wait_no_stall_from:
  "i + int k < LCD_WAIT_READY_TIMEOUT P \<Longrightarrow> \<not> busy P (reads s + k)
     \<Longrightarrow> \<not> fst (WaitCtrlReady_from P i s)"
proof (induction k arbitrary: i s)
  case 0
  then show ?case by (simp add: wait_ready)
next
  case (Suc k)
  show ?case
  proof (cases "busy P (reads s)")
    case False
    with Suc.prems show ?thesis by (simp add: wait_ready)
  next
    case True
    from Suc.prems have "i < LCD_WAIT_READY_TIMEOUT P" by simp
    moreover have "\<not> fst (WaitCtrlReady_from P (i + 1) (poll P s))"
      using Suc.prems by (intro Suc.IH) (simp_all add: poll_fields)
    ultimately show ?thesis using True by (simp add: wait_again)
  qed
qed

lemma wait_no_stall: "no_stall P \<Longrightarrow> \<not> fst (WaitCtrlReady P s)"
  unfolding no_stall_def WaitCtrlReady_def
  by (metis wait_no_stall_from add_0)

lemma latch_byte: "ucast (drop_bit 8 (push_bit 8 (ucast c :: u32))) = (c :: u8)"
  by (rule bit_word_eqI) (auto simp: bit_simps)

lemma CmdWrite_run:
  "CmdWrite P c s =
     (if fst (WaitCtrlReady P s) then snd (WaitCtrlReady P s)
      else run (write_frame False c) (snd (WaitCtrlReady P s)))"
  by (simp add: CmdWrite_def write_frame_def io_defs split: prod.split bool.split)

lemma DataWrite_run:
  "DataWrite P d s =
     (if fst (WaitCtrlReady P s) then snd (WaitCtrlReady P s)
      else run (write_frame True d) (snd (WaitCtrlReady P s)))"
  by (simp add: DataWrite_def write_frame_def io_defs split: prod.split bool.split)

lemma frame_transfers:
  "\<not> pin_E s \<Longrightarrow> bus_transfers s (run (write_frame rs b) s) =
     [if rs then Data b else Command b]"
  unfolding bus_transfers_def emitted_run
  by (simp add: write_frame_def emit_def latched_def held_def raises_E_def latch_byte)

lemma frame_fields:
  "l_flgLCD_IsOn (run (write_frame rs b) s) = l_flgLCD_IsOn s"
  "l_Contrast (run (write_frame rs b) s) = l_Contrast s"
  "pin_E (run (write_frame rs b) s) = False"
  by (simp_all add: write_frame_def emit_def)

lemma does_refl: "does s s []"
  by (simp add: does_def extends_refl bus_writes_def bus_transfers_def emitted_def)

lemma does_trans: "does s a v \<Longrightarrow> does a b w \<Longrightarrow> does s b (v @ w)"
  unfolding does_def
  by (auto simp: bus_writes_trans intro: extends_trans)

lemma wait_does: "does s (snd (WaitCtrlReady P s)) []"
  unfolding does_def WaitCtrlReady_def
  using wait_transfers [of s P 0] wait_fields [of P 0 s]
  by (simp add: wait_extends bus_writes_def)

lemma frame_does:
  "\<not> pin_E s \<Longrightarrow> does s (run (write_frame rs b) s) [if rs then Data b else Command b]"
  unfolding does_def
  by (simp add: extends_run bus_writes_def frame_transfers frame_fields)

lemma ready_E_low: "\<not> fst (WaitCtrlReady P s) \<Longrightarrow> \<not> pin_E (snd (WaitCtrlReady P s))"
  unfolding WaitCtrlReady_def using wait_fields [of P 0 s] by blast

lemma CmdWrite_ready:
  "\<not> fst (WaitCtrlReady P s) \<Longrightarrow> does s (CmdWrite P c s) [Command c]"
  using does_trans [OF wait_does frame_does [OF ready_E_low], of P s False c]
  by (simp add: CmdWrite_run)

lemma DataWrite_ready:
  "\<not> fst (WaitCtrlReady P s) \<Longrightarrow> does s (DataWrite P d s) [Data d]"
  using does_trans [OF wait_does frame_does [OF ready_E_low], of P s True d]
  by (simp add: DataWrite_run)

lemma CmdWrite_timeout:
  "fst (WaitCtrlReady P s) \<Longrightarrow> does s (CmdWrite P c s) []"
  using wait_does [of s P] by (simp add: CmdWrite_run)

lemma DataWrite_timeout:
  "fst (WaitCtrlReady P s) \<Longrightarrow> does s (DataWrite P d s) []"
  using wait_does [of s P] by (simp add: DataWrite_run)

lemma CmdWrite_does: "no_stall P \<Longrightarrow> does s (CmdWrite P c s) [Command c]"
  by (rule CmdWrite_ready) (rule wait_no_stall)

lemma DataWrite_does: "no_stall P \<Longrightarrow> does s (DataWrite P d s) [Data d]"
  by (rule DataWrite_ready) (rule wait_no_stall)


lemma wait_all_busy_from:
  "(\<forall>k. i + int k < LCD_WAIT_READY_TIMEOUT P \<longrightarrow> busy P (reads s + k))
     \<longrightarrow> fst (WaitCtrlReady_from P i s)
       \<and> reads (snd (WaitCtrlReady_from P i s)) = reads s + nat (LCD_WAIT_READY_TIMEOUT P - i)"
proof (induction P i s rule: wait_induct)
  case (timeout P i s)
  then show ?case by (simp add: wait_timeout)
next
  case (ready P i s)
  have "i + int 0 < LCD_WAIT_READY_TIMEOUT P" "\<not> busy P (reads s + 0)"
    using ready by simp_all
  then show ?case by blast
next
  case (again P i s)
  show ?case
  proof
    assume a: "\<forall>k. i + int k < LCD_WAIT_READY_TIMEOUT P \<longrightarrow> busy P (reads s + k)"
    have "\<forall>k. i + 1 + int k < LCD_WAIT_READY_TIMEOUT P \<longrightarrow> busy P (reads (poll P s) + k)"
    proof (intro allI impI)
      fix k assume "i + 1 + int k < LCD_WAIT_READY_TIMEOUT P"
      then have "i + int (Suc k) < LCD_WAIT_READY_TIMEOUT P" by simp
      with a have "busy P (reads s + Suc k)" by blast
      then show "busy P (reads (poll P s) + k)" by (simp add: poll_fields)
    qed
    with again(3) have "fst (WaitCtrlReady_from P (i + 1) (poll P s))"
      and "reads (snd (WaitCtrlReady_from P (i + 1) (poll P s)))
             = reads (poll P s) + nat (LCD_WAIT_READY_TIMEOUT P - (i + 1))"
      by blast+
    moreover have "Suc (nat (LCD_WAIT_READY_TIMEOUT P - (i + 1))) = nat (LCD_WAIT_READY_TIMEOUT P - i)"
      using again(1) by arith
    ultimately show "fst (WaitCtrlReady_from P i s)
       \<and> reads (snd (WaitCtrlReady_from P i s)) = reads s + nat (LCD_WAIT_READY_TIMEOUT P - i)"
      using again(1,2) by (simp add: wait_again poll_fields)
  qed
qed

text \<open>
  C3: when every one of the \<open>LCD_WAIT_READY_TIMEOUT\<close> samples of a wait shows the busy
  flag (bit 7) set, \<open>WaitCtrlReady\<close> reports the timeout, and \<open>CmdWrite\<close> and
  \<open>DataWrite\<close> return the state the wait left, for every command and data byte: the
  bus has seen the status reads of the polls, one per sample, and nothing else; there is
  no write, no further pulse of E and no second wait, and the result carries no error.
\<close>

theorem timeout_skips_write:
  assumes "\<forall>k. int k < LCD_WAIT_READY_TIMEOUT P \<longrightarrow> busy P (reads s + k)"
  shows "fst (WaitCtrlReady P s)
    \<and> CmdWrite P cmd s = snd (WaitCtrlReady P s)
    \<and> DataWrite P data s = snd (WaitCtrlReady P s)
    \<and> bus_transfers s (snd (WaitCtrlReady P s))
        = replicate (nat (LCD_WAIT_READY_TIMEOUT P)) StatusRead
    \<and> bus_writes s (CmdWrite P cmd s) = []
    \<and> bus_writes s (DataWrite P data s) = []"
proof -
  from assms wait_all_busy_from [of 0 P s]
  have t: "fst (WaitCtrlReady P s)"
    and r: "reads (snd (WaitCtrlReady P s)) = reads s + nat (LCD_WAIT_READY_TIMEOUT P)"
    by (simp_all add: WaitCtrlReady_def)
  from wait_transfers [of s P 0] r
  have "bus_transfers s (snd (WaitCtrlReady P s))
          = replicate (nat (LCD_WAIT_READY_TIMEOUT P)) StatusRead"
    by (simp add: WaitCtrlReady_def)
  with t show ?thesis
    by (simp add: CmdWrite_run DataWrite_run bus_writes_def)
qed

lemma addr_in_range:
  assumes "unat x < LCD_DIMENSION_X" "unat y < LCD_DIMENSION_Y"
  shows "uint (y * 0x40 + x :: u8) = uint y * 0x40 + uint x"
proof -
  have "uint x = int (unat x)" "uint y = int (unat y)"
    by (rule uint_nat)+
  with assms have "uint x < 16" "uint y < 2"
    by (simp_all only: LCD_DIMENSION_X_def LCD_DIMENSION_Y_def)
  moreover have "0 \<le> uint x" "0 \<le> uint y"
    by (rule uint_ge_0)+
  ultimately have b: "0 \<le> uint y * 0x40 + uint x" "uint y * 0x40 + uint x < 256"
    by linarith+
  have "uint (y * 0x40 + x :: u8) = (uint y * 0x40 + uint x) mod 256"
    by (simp add: uint_word_ariths mod_simps)
  with b show ?thesis
    by (simp only: mod_pos_pos_trivial)
qed

text \<open>
  C7: with the display on, \<open>x\<close> below the width, \<open>y\<close> below the height and a controller
  that answers every wait in time, \<open>LCD_GotoXY\<close> returns and the bus has seen exactly one
  write cycle, the command \<open>0x80 | (y * 0x40 + x)\<close>, driven by the port in output mode
  on a held pulse of E.
\<close>

theorem LCD_GotoXY_command:
  assumes "l_flgLCD_IsOn s" and "unat x < LCD_DIMENSION_X" and "unat y < LCD_DIMENSION_Y"
    and "no_stall P"
  shows "\<exists>s'. LCD_GotoXY P x y s = Return s'
    \<and> bus_writes s s' = [Command (word_of_int (0x80 OR (uint y * 0x40 + uint x)))]"
proof -
  let ?c = "word_of_int (0x80 OR (uint y * 0x40 + uint x)) :: u8"
  have "LCD_GotoXY P x y s = Return (CmdWrite P ?c s)"
    using assms(1-3)
    by (simp add: LCD_GotoXY_def EFM_ASSERT_def addr_in_range LCD_CMD_SET_DDRAM_ADDR_def)
  moreover have "bus_writes s (CmdWrite P ?c s) = [Command ?c]"
    using CmdWrite_does [OF assms(4), of s ?c] by (simp add: does_def)
  ultimately show ?thesis by simp
qed

text \<open>
  C4: while the display-on flag is false, \<open>LCD_Putc\<close>, \<open>LCD_Puts\<close> (of a terminated
  string), \<open>LCD_GotoXY\<close>, \<open>LCD_vPrintf\<close> and \<open>LCD_Printf\<close> return the state they were
  given: no event is added, so there is no bus transfer and no pin or register changes.
\<close>

theorem display_off_no_transfers:
  assumes "\<not> l_flgLCD_IsOn s"
  shows "LCD_Putc P c s = s
    \<and> LCD_Puts P pStr s = (if EOS \<in> set pStr then Return s else Undefined)
    \<and> LCD_GotoXY P x y s = Return s
    \<and> LCD_vPrintf P expand junk lineNum frmt args s = Return s
    \<and> LCD_Printf P expand junk lineNum frmt args s = Return s
    \<and> bus_transfers s s = []"
proof -
  have "LCD_Puts P pStr s = (if EOS \<in> set pStr then Return s else Undefined)"
    using assms by (induction pStr) (auto simp: LCD_Putc_def)
  with assms show ?thesis
    by (simp add: LCD_Putc_def LCD_GotoXY_def LCD_vPrintf_def LCD_Printf_def
        bus_transfers_def emitted_def)
qed

lemma example_busy:
  "busy release_build n = even n" "\<not> busy debug_build n" "busy stuck_build n"
  by (simp_all add: busy_def release_build_def debug_build_def stuck_build_def)

lemma no_stall_examples: "no_stall release_build" "no_stall debug_build"
proof -
  have t: "LCD_WAIT_READY_TIMEOUT release_build = 32" "LCD_WAIT_READY_TIMEOUT debug_build = 32"
    by (simp_all add: release_build_def debug_build_def)
  have "\<exists>k. int k < LCD_WAIT_READY_TIMEOUT release_build \<and> \<not> busy release_build (n + k)" for n
  proof (cases "even n")
    case True
    then show ?thesis
      by (intro exI [of _ 1]) (simp add: example_busy t)
  next
    case False
    then show ?thesis
      by (intro exI [of _ 0]) (simp add: example_busy t)
  qed
  then show "no_stall release_build"
    by (simp add: no_stall_def)
  have "\<exists>k. int k < LCD_WAIT_READY_TIMEOUT debug_build \<and> \<not> busy debug_build (n + k)" for n
    by (intro exI [of _ 0]) (simp add: example_busy t)
  then show "no_stall debug_build"
    by (simp add: no_stall_def)
qed

theorem LCD_GotoXY_command_witness:
  "l_flgLCD_IsOn lcd_on \<and> unat (5 :: u8) < LCD_DIMENSION_X \<and> unat (1 :: u8) < LCD_DIMENSION_Y
   \<and> no_stall release_build
   \<and> (\<exists>s'. LCD_GotoXY release_build 5 1 lcd_on = Return s'
         \<and> bus_writes lcd_on s' = [Command 0xC5])"
  using LCD_GotoXY_command [where s = lcd_on and x = 5 and y = 1 and P = release_build]
  by (simp add: lcd_on_def LCD_DIMENSION_X_def LCD_DIMENSION_Y_def no_stall_examples)

theorem timeout_skips_write_witness:
  "(\<forall>k. busy stuck_build (reads lcd_on + k))
   \<and> fst (WaitCtrlReady stuck_build lcd_on)
   \<and> CmdWrite stuck_build 0x01 lcd_on = snd (WaitCtrlReady stuck_build lcd_on)
   \<and> DataWrite stuck_build 0x41 lcd_on = snd (WaitCtrlReady stuck_build lcd_on)
   \<and> bus_transfers lcd_on (snd (WaitCtrlReady stuck_build lcd_on)) = replicate 32 StatusRead
   \<and> bus_writes lcd_on (CmdWrite stuck_build 0x01 lcd_on) = []
   \<and> bus_writes lcd_on (DataWrite stuck_build 0x41 lcd_on) = []"
proof -
  have h: "\<forall>k. int k < LCD_WAIT_READY_TIMEOUT stuck_build \<longrightarrow> busy stuck_build (reads lcd_on + k)"
    by (simp add: example_busy(3))
  have n: "nat (LCD_WAIT_READY_TIMEOUT stuck_build) = 32"
    by (simp add: stuck_build_def)
  from timeout_skips_write [OF h, where cmd = "0x01" and data = "0x41"] n
  show ?thesis by (simp add: example_busy(3) bus_writes_def)
qed

theorem display_off_no_transfers_witness:
  "\<not> l_flgLCD_IsOn (LCD_PowerOff lcd_on)
   \<and> LCD_Putc release_build 0x41 (LCD_PowerOff lcd_on) = LCD_PowerOff lcd_on
   \<and> LCD_Puts release_build [0x48, 0x69, 0] (LCD_PowerOff lcd_on) = Return (LCD_PowerOff lcd_on)
   \<and> LCD_GotoXY release_build 3 1 (LCD_PowerOff lcd_on) = Return (LCD_PowerOff lcd_on)
   \<and> LCD_vPrintf release_build (\<lambda>f a. f) (\<lambda>n. 0) 1 [0x48, 0x69] () (LCD_PowerOff lcd_on)
       = Return (LCD_PowerOff lcd_on)
   \<and> LCD_Printf release_build (\<lambda>f a. f) (\<lambda>n. 0) 1 [0x48, 0x69] () (LCD_PowerOff lcd_on)
       = Return (LCD_PowerOff lcd_on)
   \<and> bus_transfers (LCD_PowerOff lcd_on) (LCD_PowerOff lcd_on) = []"
proof -
  have off: "\<not> l_flgLCD_IsOn (LCD_PowerOff lcd_on)"
    by (simp add: LCD_PowerOff_def io_defs emit_def)
  from display_off_no_transfers [OF off, where P = release_build and c = "0x41"
      and pStr = "[0x48, 0x69, 0]" and x = 3 and y = 1 and expand = "\<lambda>f a. f"
      and junk = "\<lambda>n. 0" and lineNum = 1 and frmt = "[0x48, 0x69]" and args = "()"] off
  show ?thesis by (simp add: EOS_def)
qed

text \<open>
  C6: \<open>LCD_PowerOff\<close> clears the display-on flag before it changes any electrical line;
  it then switches the power-enable pin off, and after that drives the other signals low
  in this order: data bus to output mode, RW low, RS low, data bus zero, E low. The events
  the call adds to the log are exactly these seven, in this order, and the state it
  leaves has the flag and all four pins low and the data register zero.
\<close>

theorem LCD_PowerOff_order:
  "trace (LCD_PowerOff s) = trace s @
     [FlagWrite False, SetPin PIN_POWER False, DataMode LCD_DATA_MODE_OUT,
      SetPin PIN_RW False, SetPin PIN_RS False, DataOut 0, SetPin PIN_E False]
   \<and> l_flgLCD_IsOn (LCD_PowerOff s) = False
   \<and> pin_POWER (LCD_PowerOff s) = False
   \<and> MODEH (LCD_PowerOff s) = LCD_DATA_MODE_OUT
   \<and> pin_RW (LCD_PowerOff s) = False
   \<and> pin_RS (LCD_PowerOff s) = False
   \<and> DOUT (LCD_PowerOff s) = 0
   \<and> pin_E (LCD_PowerOff s) = False"
  by (simp add: LCD_PowerOff_def io_defs emit_def)

lemma length_line_of: "length (line_of text) = LCD_DIMENSION_X"
  by (simp add: line_of_def)

lemma strlen_Some:
  "strlen buffer = Some len \<Longrightarrow>
     len < length buffer \<and> buffer ! len = EOS \<and> EOS \<notin> set (take len buffer)"
proof (induction buffer arbitrary: len)
  case Nil
  then show ?case by simp
next
  case (Cons c cs)
  show ?case
  proof (cases "c = EOS")
    case True
    with Cons.prems show ?thesis by simp
  next
    case False
    with Cons.prems obtain n where n: "strlen cs = Some n" "len = Suc n"
      by auto
    from Cons.IH [OF n(1)] False n(2) show ?thesis by simp
  qed
qed

lemma add_spaces_done: "\<not> len < LCD_DIMENSION_X \<Longrightarrow> add_spaces buffer len = Some buffer"
  by (subst add_spaces.simps) simp

lemma add_spaces_fill:
  "len \<le> LCD_DIMENSION_X \<Longrightarrow> LCD_DIMENSION_X \<le> length buffer \<Longrightarrow>
     add_spaces buffer len =
       Some (take len buffer @ replicate (LCD_DIMENSION_X - len) 0x20 @ drop LCD_DIMENSION_X buffer)"
proof (induction buffer len rule: add_spaces.induct)
  case (1 buffer len)
  show ?case
  proof (cases "len < LCD_DIMENSION_X")
    case False
    with "1.prems" show ?thesis by (simp add: add_spaces_done)
  next
    case True
    with "1.prems" have st: "store buffer len 0x20 = Some (buffer[len := 0x20])"
      by (simp add: store_def)
    from True "1.prems" have
      "add_spaces (buffer[len := 0x20]) (len + 1) =
         Some (take (len + 1) (buffer[len := 0x20])
           @ replicate (LCD_DIMENSION_X - (len + 1)) 0x20
           @ drop LCD_DIMENSION_X (buffer[len := 0x20]))"
      by (intro "1.IH" [OF True st]) simp_all
    moreover have "take (len + 1) (buffer[len := 0x20]) = take len buffer @ [0x20]"
      using True "1.prems" by (simp add: take_Suc_conv_app_nth)
    moreover have "drop LCD_DIMENSION_X (buffer[len := 0x20]) = drop LCD_DIMENSION_X buffer"
      using True by simp
    moreover have "[0x20] @ replicate (LCD_DIMENSION_X - (len + 1)) (0x20 :: u8)
        = replicate (LCD_DIMENSION_X - len) 0x20"
      using True by (simp add: Suc_diff_Suc flip: replicate_Suc)
    ultimately show ?thesis
      using True st by (subst add_spaces.simps) simp
  qed
qed

lemma add_spaces_short:
  "len \<le> length buffer \<Longrightarrow> length buffer < LCD_DIMENSION_X \<Longrightarrow> add_spaces buffer len = None"
proof (induction buffer len rule: add_spaces.induct)
  case (1 buffer len)
  then have lt: "len < LCD_DIMENSION_X" by simp
  show ?case
  proof (cases "len < length buffer")
    case False
    with lt show ?thesis by (subst add_spaces.simps) (simp add: store_def)
  next
    case True
    then have st: "store buffer len 0x20 = Some (buffer[len := 0x20])"
      by (simp add: store_def)
    from True "1.prems" have "add_spaces (buffer[len := 0x20]) (len + 1) = None"
      by (intro "1.IH" [OF lt st]) simp_all
    with lt st show ?thesis by (subst add_spaces.simps) simp
  qed
qed

text \<open>The array after the three steps on it.\<close>

lemma line_buffer:
  assumes "strlen buffer = Some len"
  shows "(case (if len > LCD_DIMENSION_X then store buffer LCD_DIMENSION_X EOS else Some buffer) of
            None \<Rightarrow> None
          | Some buffer1 \<Rightarrow>
             (case add_spaces buffer1 len of
                None \<Rightarrow> None
              | Some buffer2 \<Rightarrow> store buffer2 LCD_DIMENSION_X EOS))
         = (if LCD_DIMENSION_X < length buffer
            then Some (line_of (take len buffer) @ EOS # drop (Suc LCD_DIMENSION_X) buffer)
            else None)"
proof -
  from strlen_Some [OF assms] have len: "len < length buffer" by simp
  show ?thesis
  proof (cases "len > LCD_DIMENSION_X")
    case True
    with len have "line_of (take len buffer) = take LCD_DIMENSION_X buffer"
      by (simp add: line_of_def min_def)
    with True len show ?thesis
      by (simp add: store_def add_spaces_done upd_conv_take_nth_drop)
  next
    case False
    show ?thesis
    proof (cases "LCD_DIMENSION_X \<le> length buffer")
      case short: False
      with len show ?thesis using False by (simp add: add_spaces_short)
    next
      case True
      have "line_of (take len buffer)
          = take len buffer @ replicate (LCD_DIMENSION_X - len) 0x20"
        using False len by (auto simp: line_of_def min_def)
      with True False len show ?thesis
        by (simp add: add_spaces_fill store_def upd_conv_take_nth_drop min_def)
    qed
  qed
qed

lemma LCD_WriteLine_steps:
  assumes "lineNum = 1 \<or> lineNum = 2" and "strlen buffer = Some len"
  shows "LCD_WriteLine P lineNum buffer s =
     (if LCD_DIMENSION_X < length buffer
      then and_then (LCD_GotoXY P 0 (word_of_int (lineNum - 1)) s)
             (\<lambda>s1. and_then
                (LCD_Puts P (line_of (take len buffer) @ EOS # drop (Suc LCD_DIMENSION_X) buffer) s1)
                (\<lambda>s2. Return
                   (line_of (take len buffer) @ EOS # drop (Suc LCD_DIMENSION_X) buffer, s2)))
      else Undefined)"
proof -
  from assms(1) have l: "\<not> (lineNum < 1 \<or> lineNum > 2)" by auto
  show ?thesis
    using line_buffer [OF assms(2)]
    unfolding LCD_WriteLine_def if_not_P [OF l] assms(2) option.case
    by (auto split: option.splits if_splits)
qed

lemma LCD_GotoXY_in_range:
  assumes "unat x < LCD_DIMENSION_X" and "unat y < LCD_DIMENSION_Y"
  shows "LCD_GotoXY P x y s =
     Return (if l_flgLCD_IsOn s
             then CmdWrite P (word_of_int (0x80 OR (uint y * 0x40 + uint x))) s else s)"
  using assms
  by (simp add: LCD_GotoXY_def EFM_ASSERT_def addr_in_range LCD_CMD_SET_DDRAM_ADDR_def)

lemma line_start:
  assumes "lineNum = 1 \<or> lineNum = 2"
  shows "LCD_GotoXY P 0 (word_of_int (lineNum - 1)) s =
     Return (if l_flgLCD_IsOn s
             then CmdWrite P (word_of_int (0x80 OR (lineNum - 1) * 0x40)) s else s)"
proof -
  have "unat (0 :: u8) < LCD_DIMENSION_X" "unat (word_of_int (lineNum - 1) :: u8) < LCD_DIMENSION_Y"
    "uint (word_of_int (lineNum - 1) :: u8) = lineNum - 1"
    using assms by (auto simp: LCD_DIMENSION_X_def LCD_DIMENSION_Y_def)
  from LCD_GotoXY_in_range [OF this(1,2), of P s] this(3) show ?thesis by simp
qed

lemma LCD_Puts_line:
  "EOS \<notin> set cs \<Longrightarrow> LCD_Puts P (cs @ EOS # rest) s = Return (fold (LCD_Putc P) cs s)"
  by (induction cs arbitrary: s) auto

lemma LCD_Putc_does:
  "l_flgLCD_IsOn s \<Longrightarrow> no_stall P \<Longrightarrow> does s (LCD_Putc P c s) [Data c]"
  by (simp add: LCD_Putc_def DataWrite_does)

lemma put_line_does:
  "l_flgLCD_IsOn s \<Longrightarrow> no_stall P \<Longrightarrow> does s (fold (LCD_Putc P) cs s) (map Data cs)"
proof (induction cs arbitrary: s)
  case Nil
  show ?case by (simp add: does_refl)
next
  case (Cons c cs)
  from Cons.prems have d: "does s (LCD_Putc P c s) [Data c]"
    by (rule LCD_Putc_does)
  then have "l_flgLCD_IsOn (LCD_Putc P c s)"
    using Cons.prems(1) by (simp add: does_def)
  from does_trans [OF d Cons.IH [OF this Cons.prems(2)]] show ?case by simp
qed

lemma line_of_no_EOS: "EOS \<notin> set text \<Longrightarrow> EOS \<notin> set (line_of text)"
  by (auto simp: line_of_def EOS_def dest: in_set_takeD)

text \<open>
  C2, amended: with the display on, a line number of 1 or 2, a controller that answers
  every wait in time and a terminated string in an array of more than \<open>LCD_DIMENSION_X\<close>
  bytes (room for the line and its terminator), \<open>LCD_WriteLine\<close> returns, and the write
  cycles on the bus are the command that sets the address of the line followed by exactly
  \<open>LCD_DIMENSION_X\<close> data bytes: the string with spaces added on the right when it is
  shorter than the width, its first \<open>LCD_DIMENSION_X\<close> characters when it is longer. Each
  of them is driven by the port in output mode on a held pulse of E.
\<close>

theorem LCD_WriteLine_wire:
  assumes "l_flgLCD_IsOn s" and "lineNum = 1 \<or> lineNum = 2" and "no_stall P"
    and "strlen buffer = Some len" and "LCD_DIMENSION_X < length buffer"
  shows "\<exists>buffer' s'. LCD_WriteLine P lineNum buffer s = Return (buffer', s')
    \<and> bus_writes s s' =
         Command (word_of_int (0x80 OR (lineNum - 1) * 0x40)) # map Data (line_of (take len buffer))
    \<and> length (line_of (take len buffer)) = LCD_DIMENSION_X"
proof -
  let ?line = "line_of (take len buffer)"
  let ?c = "word_of_int (0x80 OR (lineNum - 1) * 0x40) :: u8"
  let ?s1 = "CmdWrite P ?c s"
  let ?s2 = "fold (LCD_Putc P) ?line ?s1"
  have e: "EOS \<notin> set ?line"
    using strlen_Some [OF assms(4)] by (simp add: line_of_no_EOS)
  have r: "LCD_WriteLine P lineNum buffer s =
      Return (?line @ EOS # drop (Suc LCD_DIMENSION_X) buffer, ?s2)"
    using assms(1,5)
    by (simp only: LCD_WriteLine_steps [OF assms(2,4)] line_start [OF assms(2)]
        LCD_Puts_line [OF e] and_then.simps if_True)
  have d1: "does s ?s1 [Command ?c]"
    by (rule CmdWrite_does [OF assms(3)])
  then have "l_flgLCD_IsOn ?s1"
    using assms(1) by (simp add: does_def)
  then have "does ?s1 ?s2 (map Data ?line)"
    using assms(3) by (rule put_line_does)
  from does_trans [OF d1 this] have "bus_writes s ?s2 = Command ?c # map Data ?line"
    by (simp add: does_def)
  with r show ?thesis by (simp add: length_line_of)
qed

text \<open>
  C8: for a line number of 1 or 2 and a terminated string, whatever the display-on flag
  and the build, \<open>LCD_WriteLine\<close> changes the caller's array: when the array has more
  than \<open>LCD_DIMENSION_X\<close> bytes the call returns it with the truncated or padded text in
  bytes 0 to \<open>LCD_DIMENSION_X - 1\<close>, the terminator in byte \<open>LCD_DIMENSION_X\<close> and the
  rest as it was; when the array has fewer bytes (which only a string shorter than the
  width allows) the call writes past its end.
\<close>

theorem LCD_WriteLine_buffer:
  assumes "lineNum = 1 \<or> lineNum = 2" and "strlen buffer = Some len"
  shows "if LCD_DIMENSION_X < length buffer
     then \<exists>s'. LCD_WriteLine P lineNum buffer s =
            Return (line_of (take len buffer) @ EOS # drop (Suc LCD_DIMENSION_X) buffer, s')
     else LCD_WriteLine P lineNum buffer s = Undefined"
proof -
  have e: "EOS \<notin> set (line_of (take len buffer))"
    using strlen_Some [OF assms(2)] by (simp add: line_of_no_EOS)
  show ?thesis
    by (simp only: LCD_WriteLine_steps [OF assms] line_start [OF assms(1)]
        LCD_Puts_line [OF e] and_then.simps) simp
qed

lemma strlen_hello: "strlen hello = Some 5"
  by (simp add: hello_def EOS_def)

lemma strlen_too_long: "strlen too_long = Some 32"
  by (simp add: too_long_def EOS_def upt_rec)

lemma line_hello:
  "line_of (take 5 hello) =
     [0x48, 0x65, 0x6C, 0x6C, 0x6F, 0x20, 0x20, 0x20, 0x20, 0x20, 0x20, 0x20, 0x20, 0x20, 0x20, 0x20]"
  by (simp add: hello_def line_of_def LCD_DIMENSION_X_def numeral_eq_Suc)

lemma line_too_long:
  "line_of (take 32 too_long) =
     [65, 66, 67, 68, 69, 70, 71, 72, 73, 74, 75, 76, 77, 78, 79, 80]"
  by (simp add: too_long_def line_of_def LCD_DIMENSION_X_def upt_rec)

theorem LCD_WriteLine_wire_witness:
  "(\<exists>buffer' s'. LCD_WriteLine release_build 1 hello lcd_on = Return (buffer', s')
      \<and> bus_writes lcd_on s' = Command 0x80 # map Data
           [0x48, 0x65, 0x6C, 0x6C, 0x6F, 0x20, 0x20, 0x20, 0x20, 0x20, 0x20, 0x20, 0x20,
            0x20, 0x20, 0x20])
   \<and> (\<exists>buffer' s'. LCD_WriteLine release_build 2 too_long lcd_on = Return (buffer', s')
      \<and> bus_writes lcd_on s' = Command 0xC0 # map Data
           [65, 66, 67, 68, 69, 70, 71, 72, 73, 74, 75, 76, 77, 78, 79, 80])"
proof -
  have on: "l_flgLCD_IsOn lcd_on"
    by (simp add: lcd_on_def)
  have c: "LCD_DIMENSION_X < length hello" "LCD_DIMENSION_X < length too_long"
    by (simp_all add: LCD_DIMENSION_X_def hello_def too_long_def)
  from LCD_WriteLine_wire [OF on _ no_stall_examples(1) strlen_hello c(1), of 1]
    LCD_WriteLine_wire [OF on _ no_stall_examples(1) strlen_too_long c(2), of 2]
  show ?thesis
    by (auto simp: line_hello line_too_long)
qed

text \<open>
  C2 as stated, for every string: for the string \<open>Hello\<close> in an array of six bytes the
  padding loop of \<open>LCD_WriteLine\<close> writes past the array.
\<close>

theorem LCD_WriteLine_wire_counterexample:
  "l_flgLCD_IsOn lcd_on \<and> no_stall release_build
   \<and> strlen [0x48, 0x65, 0x6C, 0x6C, 0x6F, 0] = Some 5
   \<and> LCD_WriteLine release_build 1 [0x48, 0x65, 0x6C, 0x6C, 0x6F, 0] lcd_on = Undefined"
proof -
  have s: "strlen [0x48, 0x65, 0x6C, 0x6C, 0x6F, 0] = Some 5"
    by (simp add: EOS_def)
  have "\<not> LCD_DIMENSION_X < length [0x48, 0x65, 0x6C, 0x6C, 0x6F, 0 :: u8]"
    by (simp add: LCD_DIMENSION_X_def)
  with LCD_WriteLine_steps [OF _ s, of 1 release_build lcd_on]
  have "LCD_WriteLine release_build 1 [0x48, 0x65, 0x6C, 0x6C, 0x6F, 0] lcd_on = Undefined"
    by simp
  with s show ?thesis
    by (simp add: no_stall_examples lcd_on_def)
qed

theorem LCD_WriteLine_buffer_witness:
  "(\<exists>s'. LCD_WriteLine debug_build 1 hello (LCD_PowerOff lcd_on) =
      Return ([0x48, 0x65, 0x6C, 0x6C, 0x6F, 0x20, 0x20, 0x20, 0x20, 0x20, 0x20, 0x20, 0x20,
               0x20, 0x20, 0x20, 0, 0, 0, 0], s'))
   \<and> LCD_WriteLine release_build 2 [0x48, 0x69, 0] lcd_on = Undefined"
proof -
  have s: "strlen [0x48, 0x69, 0] = Some 2"
    by (simp add: EOS_def)
  have d: "drop (Suc LCD_DIMENSION_X) hello = [0, 0, 0]" "LCD_DIMENSION_X < length hello"
    "\<not> LCD_DIMENSION_X < length [0x48, 0x69, 0 :: u8]"
    by (simp_all add: hello_def LCD_DIMENSION_X_def)
  have "\<exists>s'. LCD_WriteLine debug_build 1 hello (LCD_PowerOff lcd_on) =
      Return (line_of (take 5 hello) @ EOS # drop (Suc LCD_DIMENSION_X) hello, s')"
    using LCD_WriteLine_buffer [OF _ strlen_hello, of 1 debug_build "LCD_PowerOff lcd_on"] d(2)
    by simp
  moreover have "LCD_WriteLine release_build 2 [0x48, 0x69, 0] lcd_on = Undefined"
    using LCD_WriteLine_buffer [OF _ s, of 2 release_build lcd_on] d(3)
    by simp
  ultimately show ?thesis
    by (simp add: line_hello d(1) EOS_def)
qed

lemma CmdWrite_any: "\<exists>w. does s (CmdWrite P c s) w"
  using CmdWrite_ready [of P s c] CmdWrite_timeout [of P s c] by blast

lemma DataWrite_any: "\<exists>w. does s (DataWrite P d s) w"
  using DataWrite_ready [of P s d] DataWrite_timeout [of P s d] by blast

lemma CmdWrite_keeps:
  "l_Contrast (CmdWrite P c s) = l_Contrast s"
  "l_flgLCD_IsOn (CmdWrite P c s) = l_flgLCD_IsOn s"
  "extends s (CmdWrite P c s)"
  "\<not> pin_E s \<Longrightarrow> \<not> pin_E (CmdWrite P c s)"
  using CmdWrite_any [of s P c] by (auto simp: does_def)

lemma DataWrite_keeps:
  "l_Contrast (DataWrite P d s) = l_Contrast s"
  "l_flgLCD_IsOn (DataWrite P d s) = l_flgLCD_IsOn s"
  "extends s (DataWrite P d s)"
  "\<not> pin_E s \<Longrightarrow> \<not> pin_E (DataWrite P d s)"
  using DataWrite_any [of s P d] by (auto simp: does_def)

lemma power_up_fields:
  "l_Contrast (power_up s) = l_Contrast s"
  "l_flgLCD_IsOn (power_up s) = l_flgLCD_IsOn s"
  "pin_E (power_up s) = False"
  by (simp_all add: power_up_def emit_def)





lemma LCD_PowerOn_steps:
  "LCD_PowerOn P s =
     emit (FlagWrite True)
      (CmdWrite P 0x06 (CmdWrite P 0x01 (CmdWrite P 0x0C
        (fold (load_glyph P) [0..<8]
          (CmdWrite P 0x38
            (CmdWrite P (word_of_int (0x70 OR (l_Contrast s AND 0x0F)))
              (CmdWrite P 0x6D
                (CmdWrite P (word_of_int (0x54 OR drop_bit 4 (l_Contrast s)))
                  (CmdWrite P 0x14 (CmdWrite P 0x39 (power_up s)))))))))))"
  by (simp add: LCD_PowerOn_def Let_def cmd_defs io_defs power_up_def CmdWrite_keeps
      power_up_fields [unfolded power_up_def, simplified])


lemma reach_refl: "reach s s"
  by (simp add: reach_def extends_refl)

lemma reach_trans: "reach s a \<Longrightarrow> reach a b \<Longrightarrow> reach s b"
  by (auto simp: reach_def intro: extends_trans)

lemma does_reach: "does s s' w \<Longrightarrow> reach s s'"
  by (simp add: does_def reach_def)

lemma CmdWrite_reach: "reach s (CmdWrite P c s)"
  using CmdWrite_any [of s P c] by (auto dest: does_reach)

lemma DataWrite_reach: "reach s (DataWrite P d s)"
  using DataWrite_any [of s P d] by (auto dest: does_reach)

lemma LCD_Putc_reach: "reach s (LCD_Putc P c s)"
  by (simp add: LCD_Putc_def DataWrite_reach reach_refl)

lemma ends_and_then:
  "ends s m \<Longrightarrow> (\<And>a. reach s a \<Longrightarrow> ends a (f a)) \<Longrightarrow> ends s (and_then m f)"
proof (cases m)
  case (Return a)
  assume "ends s m" and f: "\<And>a. reach s a \<Longrightarrow> ends a (f a)"
  with Return have r: "reach s a" by simp
  from f [OF r] r Return show ?thesis
    by (cases "f a") (auto intro: reach_trans)
qed simp_all

lemma ends_E_low: "ends s m \<Longrightarrow> \<not> pin_E s \<Longrightarrow> E_low m"
  by (cases m) (auto simp: reach_def)

lemma LCD_Puts_ends: "ends s (LCD_Puts P pStr s)"
proof (induction pStr arbitrary: s)
  case Nil
  show ?case by simp
next
  case (Cons c pStr)
  show ?case
  proof (cases "c = EOS")
    case True
    then show ?thesis by (simp add: reach_refl)
  next
    case False
    have "ends s (and_then (Return (LCD_Putc P c s)) (LCD_Puts P pStr))"
      by (rule ends_and_then) (simp_all add: LCD_Putc_reach Cons.IH)
    with False show ?thesis by simp
  qed
qed

lemma LCD_GotoXY_ends: "ends s (LCD_GotoXY P x y s)"
  by (simp add: LCD_GotoXY_def EFM_ASSERT_def reach_refl CmdWrite_reach)

lemma and_then_assoc: "and_then (and_then m f) g = and_then m (\<lambda>x. and_then (f x) g)"
  by (cases m) simp_all

lemma and_then_Return: "and_then m Return = m"
  by (cases m) simp_all

lemma LCD_WriteLine_ends:
  "ends s (and_then (LCD_WriteLine P lineNum buffer s) (\<lambda>(b, s1). Return s1))"
proof -
  have g: "ends s (and_then (LCD_GotoXY P x y s) (LCD_Puts P b))" for x y b
    by (rule ends_and_then [OF LCD_GotoXY_ends]) (rule LCD_Puts_ends)
  show ?thesis
    unfolding LCD_WriteLine_def
    by (simp add: EFM_ASSERT_def reach_refl and_then_assoc and_then_Return g
        split: option.split)
qed

lemma emit_reach: "pin_E (emit ev s) = pin_E s \<Longrightarrow> reach s (emit ev s)"
  by (simp add: reach_def extends_emit)

lemma vsprintf_reach: "reach s (emit Call_vsprintf s)"
  by (rule emit_reach) (simp add: emit_def)

lemma LCD_vPrintf_ends: "ends s (LCD_vPrintf P expand junk lineNum frmt args s)"
proof -
  have "ends s (and_then (Return (emit Call_vsprintf s))
      (\<lambda>s0. and_then (LCD_WriteLine P lineNum b s0) (\<lambda>(b, s1). Return s1)))" for b
    by (rule ends_and_then) (simp_all add: vsprintf_reach LCD_WriteLine_ends)
  then show ?thesis
    by (simp add: LCD_vPrintf_def Let_def EFM_ASSERT_def reach_refl split: option.split)
qed

lemma fold_reach:
  assumes "\<And>x s. reach s (f x s)"
  shows "reach s (fold f xs s)"
proof (induction xs arbitrary: s)
  case Nil
  show ?case by (simp add: reach_refl)
next
  case (Cons x xs)
  show ?case using reach_trans [OF assms Cons.IH] by simp
qed

lemma load_glyph_reach: "reach s (load_glyph P ch s)"
  unfolding load_glyph_def
  by (rule reach_trans [OF CmdWrite_reach]) (rule fold_reach, rule DataWrite_reach)

lemma upload_E_low: "\<not> pin_E s \<Longrightarrow> \<not> pin_E (fold (load_glyph P) xs s)"
  using fold_reach [of "load_glyph P" s xs, OF load_glyph_reach]
  by (simp add: reach_def)

lemma LCD_PowerOn_E_low: "\<not> pin_E (LCD_PowerOn P s)"
proof -
  have "pin_E (emit (FlagWrite True) a) = pin_E a" for a
    by (simp add: emit_def)
  then show ?thesis
    unfolding LCD_PowerOn_steps
    by (simp add: CmdWrite_keeps(4) upload_E_low power_up_fields)
qed

text \<open>
  C9: \<open>BusyRead\<close> leaves E low, and so do \<open>CmdWrite\<close> and \<open>DataWrite\<close> when the wait
  did not time out (the paths on which they raise it). \<open>LCD_PowerOn\<close>, \<open>LCD_Init\<close> and
  \<open>LCD_PowerOff\<close> end with E low from any state. Every other routine, entered with E
  low, has E low in the state it returns (or stops in an assertion): \<open>CmdWrite\<close>,
  \<open>DataWrite\<close>, \<open>LCD_Putc\<close>, \<open>LCD_Puts\<close>, \<open>LCD_GotoXY\<close>, \<open>LCD_WriteLine\<close>,
  \<open>LCD_vPrintf\<close> and \<open>LCD_Printf\<close>.
\<close>

theorem enable_line_low:
  "\<not> pin_E (snd (BusyRead P s))
   \<and> (\<not> fst (WaitCtrlReady P s) \<longrightarrow>
        \<not> pin_E (CmdWrite P c s) \<and> \<not> pin_E (DataWrite P d s))
   \<and> \<not> pin_E (LCD_PowerOn P s) \<and> \<not> pin_E (LCD_Init P s) \<and> \<not> pin_E (LCD_PowerOff s)
   \<and> (\<not> pin_E s \<longrightarrow>
        \<not> pin_E (CmdWrite P c s) \<and> \<not> pin_E (DataWrite P d s) \<and> \<not> pin_E (LCD_Putc P c s)
        \<and> E_low (LCD_Puts P pStr s) \<and> E_low (LCD_GotoXY P x y s)
        \<and> E_low (and_then (LCD_WriteLine P lineNum buffer s) (\<lambda>(b, s1). Return s1))
        \<and> E_low (LCD_vPrintf P expand junk lineNum frmt args s)
        \<and> E_low (LCD_Printf P expand junk lineNum frmt args s))"
proof -
  have "\<not> pin_E (snd (BusyRead P s))"
    by (simp add: BusyRead_fields)
  moreover have "\<not> pin_E (CmdWrite P c s) \<and> \<not> pin_E (DataWrite P d s)"
    if "\<not> fst (WaitCtrlReady P s)"
    using that by (simp add: CmdWrite_run DataWrite_run frame_fields)
  moreover have "\<not> pin_E (LCD_PowerOn P s)" "\<not> pin_E (LCD_Init P s)"
    by (simp_all add: LCD_Init_def LCD_PowerOn_E_low)
  moreover have "\<not> pin_E (LCD_PowerOff s)"
    by (simp add: LCD_PowerOff_def io_defs emit_def)
  moreover have "\<not> pin_E (CmdWrite P c s) \<and> \<not> pin_E (DataWrite P d s) \<and> \<not> pin_E (LCD_Putc P c s)"
    if "\<not> pin_E s"
    using that LCD_Putc_reach [of s P c]
    by (simp add: CmdWrite_keeps DataWrite_keeps reach_def)
  moreover have "E_low (LCD_Puts P pStr s)" "E_low (LCD_GotoXY P x y s)"
    "E_low (and_then (LCD_WriteLine P lineNum buffer s) (\<lambda>(b, s1). Return s1))"
    "E_low (LCD_vPrintf P expand junk lineNum frmt args s)"
    "E_low (LCD_Printf P expand junk lineNum frmt args s)"
    if "\<not> pin_E s"
    unfolding LCD_Printf_def
    by (rule ends_E_low [OF _ that], rule LCD_Puts_ends LCD_GotoXY_ends LCD_WriteLine_ends
        LCD_vPrintf_ends)+
  ultimately show ?thesis by blast
qed

lemma extends_length: "extends a b \<Longrightarrow> length (trace a) \<le> length (trace b)"
  by (metis extends_def trace_run length_append le_add1)

lemma ends_later:
  assumes "ends (emit ev s) m"
  shows "m \<noteq> Return s \<and> m \<noteq> Halt s"
proof -
  have "\<not> extends (emit ev s) s"
    using extends_length [of "emit ev s" s] by (auto simp: emit_def)
  with assms show ?thesis
    by (cases m) (auto simp: reach_def)
qed

text \<open>
  C10: \<open>LCD_vPrintf\<close> ends in the state it was given (it returns, or with assertions
  compiled in it stops in \<open>EFM_ASSERT\<close>, having called neither \<open>vsprintf\<close> nor
  \<open>LCD_WriteLine\<close>) exactly when the display is off or the format string is longer than
  30 characters. The test looks at the format string only: with the display on and a
  format of at most 30 characters \<open>vsprintf\<close> is called whatever the length of the text
  it prints, and a text of 40 characters or more is written past the 40 bytes of the
  buffer.
\<close>

theorem LCD_vPrintf_guard:
  "((LCD_vPrintf P expand junk lineNum frmt args s = Return s
      \<or> LCD_vPrintf P expand junk lineNum frmt args s = Halt s)
     = (\<not> l_flgLCD_IsOn s \<or> 30 < length frmt))
   \<and> LCD_vPrintf P expand junk lineNum frmt args s =
       (if \<not> l_flgLCD_IsOn s then Return s
        else if 30 < length frmt then (if DEBUG_EFM P then Halt s else Return s)
        else if 40 \<le> length (expand frmt args) then Undefined
        else and_then
          (LCD_WriteLine P lineNum
             (expand frmt args @ EOS # drop (Suc (length (expand frmt args))) (map junk [0..<40]))
             (emit Call_vsprintf s))
          (\<lambda>(b, s1). Return s1))"
proof -
  let ?r = "LCD_vPrintf P expand junk lineNum frmt args s"
  let ?w = "and_then
          (LCD_WriteLine P lineNum
             (expand frmt args @ EOS # drop (Suc (length (expand frmt args))) (map junk [0..<40]))
             (emit Call_vsprintf s))
          (\<lambda>(b, s1). Return s1)"
  have eq: "?r =
       (if \<not> l_flgLCD_IsOn s then Return s
        else if 30 < length frmt then (if DEBUG_EFM P then Halt s else Return s)
        else if 40 \<le> length (expand frmt args) then Undefined
        else ?w)"
    by (simp add: LCD_vPrintf_def vsprintf_def Let_def EFM_ASSERT_def not_less)
  have "?w \<noteq> Return s \<and> ?w \<noteq> Halt s"
    by (rule ends_later) (rule LCD_WriteLine_ends)
  with eq have "(?r = Return s \<or> ?r = Halt s) = (\<not> l_flgLCD_IsOn s \<or> 30 < length frmt)"
    by auto
  with eq show ?thesis by blast
qed

theorem LCD_vPrintf_guard_witness:
  "l_flgLCD_IsOn lcd_on
   \<and> LCD_vPrintf release_build wide_text (\<lambda>n. 0) 1 long_format () lcd_on = Return lcd_on
   \<and> LCD_vPrintf debug_build wide_text (\<lambda>n. 0) 1 long_format () lcd_on = Halt lcd_on
   \<and> LCD_vPrintf release_build wide_text (\<lambda>n. 0) 1 [0x25, 0x73] () lcd_on = Undefined
   \<and> LCD_vPrintf release_build wide_text (\<lambda>n. 0) 1 [0x25, 0x73] () (LCD_PowerOff lcd_on)
       = Return (LCD_PowerOff lcd_on)"
proof -
  have on: "l_flgLCD_IsOn lcd_on" "\<not> l_flgLCD_IsOn (LCD_PowerOff lcd_on)"
    by (simp_all add: lcd_on_def LCD_PowerOff_def io_defs emit_def)
  have b: "DEBUG_EFM debug_build" "\<not> DEBUG_EFM release_build"
    by (simp_all add: debug_build_def release_build_def)
  have l: "length long_format = 31" "length (wide_text [0x25, 0x73] ()) = 50"
    by (simp_all add: long_format_def wide_text_def)
  note g = LCD_vPrintf_guard [THEN conjunct2]
  show ?thesis
    using on b l
      g [of release_build wide_text "\<lambda>n. 0" 1 long_format "()" lcd_on]
      g [of debug_build wide_text "\<lambda>n. 0" 1 long_format "()" lcd_on]
      g [of release_build wide_text "\<lambda>n. 0" 1 "[0x25, 0x73]" "()" lcd_on]
      g [of release_build wide_text "\<lambda>n. 0" 1 "[0x25, 0x73]" "()" "LCD_PowerOff lcd_on"]
    by simp
qed

text \<open>
  C1, on the code: with the display on and assertions compiled out, \<open>LCD_GotoXY (16, 0)\<close>
  (a column beyond the width) returns after writing the set-address command \<open>0x90\<close> to
  the controller; nothing is signalled. With assertions compiled in, the same call stops in
  \<open>EFM_ASSERT\<close> before any event.
\<close>

theorem LCD_GotoXY_beyond_width:
  "(\<exists>s'. LCD_GotoXY release_build 16 0 lcd_on = Return s'
      \<and> bus_writes lcd_on s' = [Command 0x90])
   \<and> LCD_GotoXY debug_build 16 0 lcd_on = Halt lcd_on"
proof -
  have on: "l_flgLCD_IsOn lcd_on"
    by (simp add: lcd_on_def)
  have "LCD_GotoXY release_build 16 0 lcd_on = Return (CmdWrite release_build 0x90 lcd_on)"
    using on
    by (simp add: LCD_GotoXY_def EFM_ASSERT_def release_build_def LCD_CMD_SET_DDRAM_ADDR_def)
  moreover have "bus_writes lcd_on (CmdWrite release_build 0x90 lcd_on) = [Command 0x90]"
    using CmdWrite_does [OF no_stall_examples(1), of lcd_on "0x90"] by (simp add: does_def)
  moreover have "LCD_GotoXY debug_build 16 0 lcd_on = Halt lcd_on"
    using on
    by (simp add: LCD_GotoXY_def EFM_ASSERT_def debug_build_def LCD_DIMENSION_X_def)
  ultimately show ?thesis by simp
qed

theorem enable_line_low_witness:
  "\<not> pin_E lcd_on \<and> \<not> fst (WaitCtrlReady release_build lcd_on)
   \<and> \<not> pin_E (snd (BusyRead release_build lcd_on))
   \<and> \<not> pin_E (CmdWrite release_build 0x01 lcd_on)
   \<and> \<not> pin_E (DataWrite release_build 0x41 lcd_on)
   \<and> \<not> pin_E (LCD_PowerOn release_build lcd_on)
   \<and> \<not> pin_E (LCD_PowerOff lcd_on)
   \<and> \<not> pin_E (LCD_Putc release_build 0x01 lcd_on)
   \<and> E_low (LCD_Puts release_build hello lcd_on)
   \<and> E_low (LCD_GotoXY release_build 3 1 lcd_on)
   \<and> E_low (and_then (LCD_WriteLine release_build 1 hello lcd_on) (\<lambda>(b, s1). Return s1))
   \<and> E_low (LCD_vPrintf release_build wide_text (\<lambda>n. 0) 1 [0x25, 0x73] () lcd_on)"
proof -
  have e: "\<not> pin_E lcd_on"
    by (simp add: lcd_on_def)
  have w: "\<not> fst (WaitCtrlReady release_build lcd_on)"
    by (rule wait_no_stall [OF no_stall_examples(1)])
  from enable_line_low [where P = release_build and s = lcd_on and c = "0x01" and d = "0x41"
      and pStr = hello and x = 3 and y = 1 and lineNum = 1 and buffer = hello
      and expand = wide_text and junk = "\<lambda>n. 0" and frmt = "[0x25, 0x73]" and args = "()"] e w
  show ?thesis by simp
qed















end
